theory Spec2Isabelle
  imports Main
begin

section \<open>The session relay: data model\<close>

text \<open>
  The repository holds two revisions of one socket.io server: \<^verbatim>\<open>src/index.ts\<close> and
  \<^verbatim>\<open>src/unnamed/part_000\<close> (whose handlers agree with the compiled
  \<^verbatim>\<open>src/dist/index.js\<close>). The handlers that differ between them take the revision
  as their first argument; the others are the same text in both files.

  Strings are \<^typ>\<open>string\<close>; a character stands for one code unit below 256. A payload
  field that may be missing (\<^verbatim>\<open>undefined\<close>) is a \<^typ>\<open>string option\<close>. Payloads the
  server forwards without looking at them (\<^verbatim>\<open>data\<close>, \<^verbatim>\<open>state\<close>, \<^verbatim>\<open>message\<close>,
  \<^verbatim>\<open>time\<close>) are represented by their text.
\<close>

datatype revision = Index_ts | Part_000

type_synonym payload = string

text \<open>\<^verbatim>\<open>const sessions: { [code: string]: { hostId: string } } = {}\<close>\<close>

record session =
  hostId :: string

type_synonym registry = "string \<rightharpoonup> session"

text \<open>
  The server state: the registry, the connected sockets, \<^verbatim>\<open>socket.rooms\<close> of every
  socket (a JavaScript \<^verbatim>\<open>Set\<close>, so a duplicate-free list in insertion order) and
  \<^verbatim>\<open>socket.data.displayName\<close> of every socket.
\<close>

record server =
  sessions :: registry
  sockets :: "string list"
  rooms :: "string \<Rightarrow> string list"
  displayName :: "string \<rightharpoonup> string"

datatype event =
    SessionCreated string
  | UserJoined string "string option" bool
  | SessionJoined string bool string
  | RequestState string
  | SyncState payload
  | PlaybackControl payload
  | HostTransferred string
  | ChatMessage string payload payload
  | UserLeft string "string option"
  | SessionEnded string
  | ErrorEvent string
  | Ack bool

text \<open>
  Where an emission is addressed: \<^verbatim>\<open>socket.emit\<close> (and the acknowledgment callback),
  \<^verbatim>\<open>io.to(room).emit\<close>, and \<^verbatim>\<open>socket.to(room).emit\<close>, whose room is
  \<^verbatim>\<open>undefined\<close> when the looked-up object has no \<^verbatim>\<open>hostId\<close>.
\<close>

datatype target = Socket string | Room string | RoomExcept "string option" string

datatype emission = Emit (target: target) (recipients: "string list") (event: event)

definition initial :: server where
  "initial = \<lparr>sessions = Map.empty, sockets = [], rooms = (\<lambda>_. []), displayName = Map.empty\<rparr>"

subsection \<open>Lookups in the registry object\<close>

text \<open>
  \<^verbatim>\<open>sessions\<close> is an object literal, so \<^verbatim>\<open>sessions[key]\<close> also finds the properties
  inherited from \<^verbatim>\<open>Object.prototype\<close>; each of them is a function or an object, hence
  truthy, and none has a \<^verbatim>\<open>hostId\<close>.
\<close>

definition object_prototype_keys :: "string list" where
  "object_prototype_keys =
     [''constructor'', ''__defineGetter__'', ''__defineSetter__'', ''hasOwnProperty'',
      ''__lookupGetter__'', ''__lookupSetter__'', ''isPrototypeOf'', ''propertyIsEnumerable'',
      ''toString'', ''valueOf'', ''__proto__'', ''toLocaleString'']"

text \<open>The truth value of \<^verbatim>\<open>sessions[key]\<close>.\<close>

definition truthy :: "registry \<Rightarrow> string \<Rightarrow> bool" where
  "truthy reg key = (reg key \<noteq> None \<or> key \<in> set object_prototype_keys)"

text \<open>\<^verbatim>\<open>sessions[key].hostId\<close>, for a truthy \<^verbatim>\<open>sessions[key]\<close>; \<open>None\<close> is \<^verbatim>\<open>undefined\<close>.\<close>

definition host_of :: "registry \<Rightarrow> string \<Rightarrow> string option" where
  "host_of reg key = map_option hostId (reg key)"

subsection \<open>Rooms and emissions\<close>

text \<open>socket.io puts every socket into the room named by its own id when it connects.\<close>

definition connection :: "server \<Rightarrow> string \<Rightarrow> server" where
  "connection st sid = st\<lparr>sockets := sockets st @ [sid], rooms := (rooms st)(sid := [sid])\<rparr>"

definition socket_join :: "server \<Rightarrow> string \<Rightarrow> string \<Rightarrow> server" where
  "socket_join st sid room =
     (if room \<in> set (rooms st sid) then st
      else st\<lparr>rooms := (rooms st)(sid := rooms st sid @ [room])\<rparr>)"

definition socket_leave :: "server \<Rightarrow> string \<Rightarrow> string \<Rightarrow> server" where
  "socket_leave st sid room = st\<lparr>rooms := (rooms st)(sid := removeAll room (rooms st sid))\<rparr>"

definition members :: "server \<Rightarrow> string \<Rightarrow> string list" where
  "members st room = filter (\<lambda>s. room \<in> set (rooms st s)) (sockets st)"

definition socket_emit :: "string \<Rightarrow> event \<Rightarrow> emission" where
  "socket_emit sid ev = Emit (Socket sid) [sid] ev"

definition io_to_emit :: "server \<Rightarrow> string \<Rightarrow> event \<Rightarrow> emission" where
  "io_to_emit st room ev = Emit (Room room) (members st room) ev"

definition socket_to_emit :: "server \<Rightarrow> string \<Rightarrow> string option \<Rightarrow> event \<Rightarrow> emission" where
  "socket_to_emit st sid room ev =
     Emit (RoomExcept room sid)
       (case room of None \<Rightarrow> [] | Some r \<Rightarrow> filter (\<lambda>s. s \<noteq> sid) (members st r)) ev"

text \<open>
  \<^verbatim>\<open>Array.from(socket.rooms).find((r) => r !== socket.id && sessions[r])\<close>: the
  caller's session, as every handler without a code argument resolves it.
\<close>

definition resolve :: "server \<Rightarrow> string \<Rightarrow> string option" where
  "resolve st sid = find (\<lambda>r. r \<noteq> sid \<and> truthy (sessions st) r) (rooms st sid)"

subsection \<open>Display names\<close>

text \<open>What \<^verbatim>\<open>String.prototype.trim\<close> removes, among the code units below 256.\<close>

definition is_space :: "char \<Rightarrow> bool" where
  "is_space ch = (of_char ch \<in> {9, 10, 11, 12, 13, 32, 160 :: nat})"

definition trim :: "string \<Rightarrow> string" where
  "trim s = rev (dropWhile is_space (rev (dropWhile is_space s)))"

text \<open>\<^verbatim>\<open>name && name.trim() ? name : "Guest"\<close>\<close>

definition name_or_guest :: "string option \<Rightarrow> string" where
  "name_or_guest name =
     (case name of
        None \<Rightarrow> ''Guest''
      | Some n \<Rightarrow> if n \<noteq> [] \<and> trim n \<noteq> [] then n else ''Guest'')"

text \<open>\<^verbatim>\<open>socket.data.displayName || "Guest"\<close>\<close>

definition recorded_or_guest :: "server \<Rightarrow> string \<Rightarrow> string" where
  "recorded_or_guest st sid =
     (case displayName st sid of
        None \<Rightarrow> ''Guest''
      | Some n \<Rightarrow> if n \<noteq> [] then n else ''Guest'')"

text \<open>
  The \<^verbatim>\<open>user\<close> field of an outgoing chat message.
  \<^verbatim>\<open>index.ts\<close>: \<^verbatim>\<open>user && user.trim() ? user : 'Guest'\<close>;
  \<^verbatim>\<open>part_000\<close>: \<^verbatim>\<open>socket.data.displayName || (user && user.trim()) || "Guest"\<close>.
\<close>

definition chat_user :: "revision \<Rightarrow> server \<Rightarrow> string \<Rightarrow> string option \<Rightarrow> string" where
  "chat_user rv st sid user =
     (case rv of
        Index_ts \<Rightarrow> name_or_guest user
      | Part_000 \<Rightarrow>
          (case displayName st sid of
             Some n \<Rightarrow>
               if n \<noteq> [] then n
               else (case user of
                       None \<Rightarrow> ''Guest''
                     | Some u \<Rightarrow> if u \<noteq> [] \<and> trim u \<noteq> [] then trim u else ''Guest'')
           | None \<Rightarrow>
               (case user of
                  None \<Rightarrow> ''Guest''
                | Some u \<Rightarrow> if u \<noteq> [] \<and> trim u \<noteq> [] then trim u else ''Guest'')))"

section \<open>The code generator\<close>

definition chars :: string where
  "chars = ''ABCDEFGHIJKLMNOPQRSTUVWXYZ0123456789''"

text \<open>
  The random source is the sequence of values \<^verbatim>\<open>Math.floor(Math.random() * chars.length)\<close>
  takes, one per call; they are below \<open>36\<close>. \<open>candidate\<close> is the \<^verbatim>\<open>for\<close> loop: six
  draws, appended left to right.
\<close>

definition candidate :: "(nat \<Rightarrow> nat) \<Rightarrow> string" where
  "candidate rnd = map (\<lambda>i. chars ! rnd i) [0..<6]"

definition advance :: "(nat \<Rightarrow> nat) \<Rightarrow> nat \<Rightarrow> nat" where
  "advance rnd = (\<lambda>i. rnd (i + 6))"

text \<open>
  \<^verbatim>\<open>if (sessions[code]) return generateCode(); return code;\<close>
  The retry consumes the next six draws. It is a call in non-tail position, so every retry
  takes one more frame of the call stack, and the engine throws \<^verbatim>\<open>RangeError\<close> when no
  frame is left. The first argument is the number of frames the call may use; \<open>None\<close> is
  that exception.
\<close>

fun generateCode :: "nat \<Rightarrow> registry \<Rightarrow> (nat \<Rightarrow> nat) \<Rightarrow> string option" where
  "generateCode 0 reg rnd = None"
| "generateCode (Suc depth) reg rnd =
     (if truthy reg (candidate rnd) then generateCode depth reg (advance rnd)
      else Some (candidate rnd))"

section \<open>The handlers\<close>

text \<open>
  Every handler takes the state and the calling socket's id and returns the new state with
  the emissions in the order the source performs them. Each emission carries the sockets it
  reaches, computed from the rooms at the moment of the \<^verbatim>\<open>emit\<close>.

  \<^verbatim>\<open>create-session\<close> calls \<open>generateCode\<close> first; when that throws, the handler has done
  nothing yet.
\<close>

definition create_session ::
  "nat \<Rightarrow> server \<Rightarrow> string \<Rightarrow> (nat \<Rightarrow> nat) \<Rightarrow> (server \<times> emission list) option" where
  "create_session depth st sid rnd =
     (case generateCode depth (sessions st) rnd of
        None \<Rightarrow> None
      | Some code \<Rightarrow>
          Some ((socket_join st sid code)
                   \<lparr>sessions := (sessions st)(code \<mapsto> \<lparr>hostId = sid\<rparr>)\<rparr>,
                [socket_emit sid (SessionCreated code),
                 socket_emit sid (UserJoined sid None True)]))"

text \<open>
  \<^verbatim>\<open>sessions[code].hostId = newHostId\<close> is reached only when \<^verbatim>\<open>socket.id\<close> equals the
  \<^verbatim>\<open>hostId\<close> found, so only for a key of the registry itself.
\<close>

definition transfer_host ::
  "server \<Rightarrow> string \<Rightarrow> string option \<Rightarrow> string \<Rightarrow> server \<times> emission list" where
  "transfer_host st sid code newHostId =
     (case code of
        None \<Rightarrow> (st, [socket_emit sid (ErrorEvent ''Invalid session for host transfer'')])
      | Some c \<Rightarrow>
          if c = [] \<or> \<not> truthy (sessions st) c
          then (st, [socket_emit sid (ErrorEvent ''Invalid session for host transfer'')])
          else if Some sid \<noteq> host_of (sessions st) c
          then (st, [socket_emit sid
                       (ErrorEvent ''Only the current host can transfer host rights'')])
          else (st\<lparr>sessions := (sessions st)(c \<mapsto> \<lparr>hostId = newHostId\<rparr>)\<rparr>,
                [io_to_emit st c (HostTransferred newHostId)]))"

text \<open>
  \<open>callback\<close> says whether the client passed an acknowledgment function. Only
  \<^verbatim>\<open>part_000\<close> stores the display name in \<^verbatim>\<open>socket.data\<close>.
\<close>

definition join_session ::
  "revision \<Rightarrow> server \<Rightarrow> string \<Rightarrow> string option \<Rightarrow> string option \<Rightarrow> bool
     \<Rightarrow> server \<times> emission list" where
  "join_session rv st sid code name callback =
     (case code of
        None \<Rightarrow>
          (st, (if callback then [socket_emit sid (Ack False)] else [])
               @ [socket_emit sid (ErrorEvent ''Invalid session code'')])
      | Some c \<Rightarrow>
          if c = [] \<or> \<not> truthy (sessions st) c
          then (st, (if callback then [socket_emit sid (Ack False)] else [])
                    @ [socket_emit sid (ErrorEvent ''Invalid session code'')])
          else
            let st1 = socket_join st sid c;
                isHost = (Some sid = host_of (sessions st1) c);
                shown = name_or_guest name;
                st2 = (case rv of
                         Index_ts \<Rightarrow> st1
                       | Part_000 \<Rightarrow> st1\<lparr>displayName := (displayName st1)(sid \<mapsto> shown)\<rparr>)
            in (st2,
                [io_to_emit st2 c (UserJoined sid (Some shown) isHost),
                 socket_emit sid (SessionJoined c isHost shown)]
                @ (if callback then [socket_emit sid (Ack True)] else [])
                @ [socket_to_emit st2 sid (host_of (sessions st2) c) (RequestState sid)]))"

definition playback_control :: "server \<Rightarrow> string \<Rightarrow> payload \<Rightarrow> server \<times> emission list" where
  "playback_control st sid data =
     (case resolve st sid of
        None \<Rightarrow> (st, [socket_emit sid (ErrorEvent ''Only host can control playback'')])
      | Some c \<Rightarrow>
          if c = [] \<or> Some sid \<noteq> host_of (sessions st) c
          then (st, [socket_emit sid (ErrorEvent ''Only host can control playback'')])
          else (st, [io_to_emit st c (PlaybackControl data)]))"

definition sync_state :: "server \<Rightarrow> string \<Rightarrow> payload \<Rightarrow> server \<times> emission list" where
  "sync_state st sid data =
     (case resolve st sid of
        None \<Rightarrow> (st, [])
      | Some c \<Rightarrow>
          if c = [] \<or> Some sid \<noteq> host_of (sessions st) c then (st, [])
          else (st, [io_to_emit st c (SyncState data)]))"


definition chat_message ::
  "revision \<Rightarrow> server \<Rightarrow> string \<Rightarrow> string option \<Rightarrow> payload \<Rightarrow> payload
     \<Rightarrow> server \<times> emission list" where
  "chat_message rv st sid user message time =
     (case resolve st sid of
        None \<Rightarrow> (st, [])
      | Some c \<Rightarrow>
          if c = [] then (st, [])
          else (st, [io_to_emit st c (ChatMessage (chat_user rv st sid user) message time)]))"

text \<open>
  The \<^verbatim>\<open>user-left\<close> payload: \<^verbatim>\<open>{ userId: socket.id }\<close> in \<^verbatim>\<open>index.ts\<close>,
  \<^verbatim>\<open>{ userId: socket.id, name }\<close> in \<^verbatim>\<open>part_000\<close>.
\<close>

definition user_left :: "revision \<Rightarrow> server \<Rightarrow> string \<Rightarrow> event" where
  "user_left rv st sid =
     (case rv of
        Index_ts \<Rightarrow> UserLeft sid None
      | Part_000 \<Rightarrow> UserLeft sid (Some (recorded_or_guest st sid)))"

text \<open>\<^verbatim>\<open>delete sessions[code]\<close> removes a property of the object itself, if there is one.\<close>

definition leave_session ::
  "revision \<Rightarrow> server \<Rightarrow> string \<Rightarrow> string option \<Rightarrow> server \<times> emission list" where
  "leave_session rv st sid code =
     (case code of
        None \<Rightarrow> (st, [])
      | Some c \<Rightarrow>
          if c = [] \<or> \<not> truthy (sessions st) c then (st, [])
          else
            let st1 = socket_leave st sid c
            in if Some sid = host_of (sessions st1) c
               then (st1\<lparr>sessions := (sessions st1)(c := None)\<rparr>,
                     [io_to_emit st1 c (user_left rv st1 sid),
                      io_to_emit st1 c (SessionEnded ''Host left the session'')])
               else (st1, [io_to_emit st1 c (user_left rv st1 sid)]))"

text \<open>
  The body of the \<^verbatim>\<open>disconnect\<close> listener: it reads \<^verbatim>\<open>socket.rooms\<close> and calls no
  \<^verbatim>\<open>socket.leave\<close>.
\<close>

definition disconnect_listener ::
  "revision \<Rightarrow> server \<Rightarrow> string \<Rightarrow> server \<times> emission list" where
  "disconnect_listener rv st sid =
     (case resolve st sid of
        None \<Rightarrow> (st, [])
      | Some c \<Rightarrow>
          if c = [] then (st, [])
          else if Some sid = host_of (sessions st) c
          then (st\<lparr>sessions := (sessions st)(c := None)\<rparr>,
                [io_to_emit st c (user_left rv st sid),
                 io_to_emit st c (SessionEnded ''Host left the session'')])
          else (st, [io_to_emit st c (user_left rv st sid)]))"

text \<open>
  When a connection closes, socket.io first takes the socket out of all its rooms
  (\<^verbatim>\<open>leaveAll\<close>) and out of the namespace, and only then fires \<^verbatim>\<open>disconnect\<close>. The
  handlers register for \<^verbatim>\<open>disconnect\<close>, not for \<^verbatim>\<open>disconnecting\<close>, so the listener
  runs in the state \<open>socket_close\<close> leaves.
\<close>

definition socket_close :: "server \<Rightarrow> string \<Rightarrow> server" where
  "socket_close st sid =
     st\<lparr>sockets := removeAll sid (sockets st), rooms := (rooms st)(sid := [])\<rparr>"

definition disconnect :: "revision \<Rightarrow> server \<Rightarrow> string \<Rightarrow> server \<times> emission list" where
  "disconnect rv st sid = disconnect_listener rv (socket_close st sid) sid"

section \<open>Reachable states\<close>

text \<open>
  The states the server gets into from the empty one, by a connection, by a handler that
  changes the state (the other handlers only emit) or by the close of a connection.
\<close>

inductive reachable :: "revision \<Rightarrow> server \<Rightarrow> bool" for rv :: revision where
  start: "reachable rv initial"
| connect: "reachable rv st \<Longrightarrow> reachable rv (connection st sid)"
| create: "reachable rv st \<Longrightarrow> create_session depth st sid rnd = Some (st', es) \<Longrightarrow> reachable rv st'"
| transfer: "reachable rv st \<Longrightarrow> reachable rv (fst (transfer_host st sid code newHostId))"
| join: "reachable rv st \<Longrightarrow> reachable rv (fst (join_session rv st sid code name callback))"
| leave: "reachable rv st \<Longrightarrow> reachable rv (fst (leave_session rv st sid code))"
| close: "reachable rv st \<Longrightarrow> reachable rv (fst (disconnect rv st sid))"

section \<open>Membership\<close>

text \<open>
  The sessions of the registry a socket is in: those of its rooms, its own apart, that are
  keys of the registry. Nothing in the server stores this; the handlers recompute the first
  such room (\<open>resolve\<close>) on every event.
\<close>

definition memberships :: "server \<Rightarrow> string \<Rightarrow> string list" where
  "memberships st sid = filter (\<lambda>r. r \<noteq> sid \<and> sessions st r \<noteq> None) (rooms st sid)"

definition in_at_most_one :: "server \<Rightarrow> string \<Rightarrow> bool" where
  "in_at_most_one st sid = (card (set (memberships st sid)) \<le> 1)"

section \<open>Example runs\<close>

text \<open>
  States used to evaluate the handlers. \<open>lobby\<close>: sockets \<open>a\<close> and \<open>b\<close> are connected.
  \<open>hosted\<close>: \<open>a\<close> has created the session \<open>AAAAAA\<close>. \<open>hosted_twice\<close>: \<open>a\<close> has also
  created \<open>AAAAAB\<close>. \<open>joined\<close>: \<open>b\<close> has joined \<open>AAAAAA\<close> under the name \<open>Sam\<close> in
  \<^verbatim>\<open>part_000\<close>; \<open>joined_index_ts\<close>: the same in \<^verbatim>\<open>index.ts\<close>, which records no name.
  \<open>handed_over\<close>: in \<open>joined\<close>, \<open>a\<close> has transferred the host rights to \<open>b\<close>.
  \<open>two_hosts\<close>: in \<open>hosted\<close>, \<open>b\<close> has created a session of its own, \<open>BBBBBB\<close>. The lemmas
  of the next section show that the handlers produce these states.
\<close>

definition lobby :: server where
  "lobby = connection (connection initial ''a'') ''b''"

definition hosted :: server where
  "hosted = lobby\<lparr>sessions := [''AAAAAA'' \<mapsto> \<lparr>hostId = ''a''\<rparr>],
                   rooms := (rooms lobby)(''a'' := [''a'', ''AAAAAA''])\<rparr>"

definition hosted_twice :: server where
  "hosted_twice =
     hosted\<lparr>sessions := (sessions hosted)(''AAAAAB'' \<mapsto> \<lparr>hostId = ''a''\<rparr>),
            rooms := (rooms hosted)(''a'' := [''a'', ''AAAAAA'', ''AAAAAB''])\<rparr>"

definition joined :: server where
  "joined = hosted\<lparr>rooms := (rooms hosted)(''b'' := [''b'', ''AAAAAA'']),
                   displayName := [''b'' \<mapsto> ''Sam'']\<rparr>"

definition joined_index_ts :: server where
  "joined_index_ts = hosted\<lparr>rooms := (rooms hosted)(''b'' := [''b'', ''AAAAAA''])\<rparr>"

definition handed_over :: server where
  "handed_over = joined\<lparr>sessions := [''AAAAAA'' \<mapsto> \<lparr>hostId = ''b''\<rparr>]\<rparr>"


section \<open>Basic facts\<close>

lemmas example_defs =
  lobby_def hosted_def hosted_twice_def joined_def joined_index_ts_def
  connection_def initial_def

lemma resolve_SomeD:
  "resolve st sid = Some c \<Longrightarrow> c \<in> set (rooms st sid) \<and> c \<noteq> sid \<and> truthy (sessions st) c"
  unfolding resolve_def by (auto simp: find_Some_iff)

lemma sessions_socket_leave: "sessions (socket_leave st sid r) = sessions st"
  by (simp add: socket_leave_def)

lemma sessions_socket_join: "sessions (socket_join st sid r) = sessions st"
  by (simp add: socket_join_def)

lemma user_left_socket_leave: "user_left rv (socket_leave st sid r) sid' = user_left rv st sid'"
  by (cases rv) (simp_all add: user_left_def recorded_or_guest_def socket_leave_def)

text \<open>After \<^verbatim>\<open>socket.leave(c)\<close> the room holds its earlier members but the leaver.\<close>

lemma members_socket_leave:
  "members (socket_leave st sid c) c = filter (\<lambda>s. s \<noteq> sid) (members st c)"
  unfolding members_def socket_leave_def
  by (induction "sockets st") (auto intro!: filter_cong)

text \<open>
  The \<^verbatim>\<open>disconnect\<close> listener finds no session for a socket that has no room but, at
  most, its own; so it does nothing at the close of a connection, whose socket has left
  every room by then.
\<close>

lemma disconnect_listener_without_rooms:
  assumes "set (rooms st sid) \<subseteq> {sid}"
  shows "disconnect_listener rv st sid = (st, [])"
proof -
  have "resolve st sid = None"
    using assms by (auto simp: resolve_def find_None_iff)
  then show ?thesis by (simp add: disconnect_listener_def)
qed

lemma disconnect_closes: "disconnect rv st sid = (socket_close st sid, [])"
  unfolding disconnect_def
  by (rule disconnect_listener_without_rooms) (simp add: socket_close_def)

text \<open>The name \<^verbatim>\<open>join-session\<close> shows and records is never empty.\<close>

lemma name_or_guest_nonempty: "name_or_guest name \<noteq> []"
  by (simp add: name_or_guest_def split: option.splits)

subsection \<open>The example states are reached by the handlers\<close>

lemma candidate_zero: "candidate (\<lambda>_. 0) = ''AAAAAA''"
  by (simp add: candidate_def chars_def upt_rec)

text \<open>One step of the generator on a call stack whose depth is given as a numeral.\<close>

lemma generateCode_numeral:
  "generateCode (numeral n) reg rnd =
     (if truthy reg (candidate rnd) then generateCode (pred_numeral n) reg (advance rnd)
      else Some (candidate rnd))"
  by (simp add: numeral_eq_Suc)

lemma lobby_creates_hosted:
  "create_session 10000 lobby ''a'' (\<lambda>_. 0) =
     Some (hosted, [Emit (Socket ''a'') [''a''] (SessionCreated ''AAAAAA''),
                    Emit (Socket ''a'') [''a''] (UserJoined ''a'' None True)])"
  unfolding create_session_def
  by (simp add: generateCode_numeral candidate_zero truthy_def example_defs
        object_prototype_keys_def socket_join_def socket_emit_def)

lemma hosted_creates_twice:
  "create_session 10000 hosted ''a'' (\<lambda>i. if i = 5 then 1 else 0) =
     Some (hosted_twice, [Emit (Socket ''a'') [''a''] (SessionCreated ''AAAAAB''),
                          Emit (Socket ''a'') [''a''] (UserJoined ''a'' None True)])"
  unfolding create_session_def
  by (simp add: generateCode_numeral candidate_def chars_def upt_rec truthy_def
        example_defs object_prototype_keys_def socket_join_def socket_emit_def)

text \<open>
  The scenario of the specification: the guest joins as \<open>Sam\<close>; the room receives
  \<^verbatim>\<open>user-joined\<close>, the host receives \<^verbatim>\<open>request-state\<close>.
\<close>

lemma hosted_join_joined:
  "join_session Part_000 hosted ''b'' (Some ''AAAAAA'') (Some ''Sam'') True =
     (joined,
      [Emit (Room ''AAAAAA'') [''a'', ''b''] (UserJoined ''b'' (Some ''Sam'') False),
       Emit (Socket ''b'') [''b''] (SessionJoined ''AAAAAA'' False ''Sam''),
       Emit (Socket ''b'') [''b''] (Ack True),
       Emit (RoomExcept (Some ''a'') ''b'') [''a''] (RequestState ''b'')])"
  by (simp add: join_session_def truthy_def socket_join_def
      host_of_def name_or_guest_def trim_def is_space_def io_to_emit_def members_def
      socket_emit_def socket_to_emit_def example_defs Let_def)

lemma hosted_join_joined_index_ts:
  "join_session Index_ts hosted ''b'' (Some ''AAAAAA'') (Some ''Sam'') True =
     (joined_index_ts,
      [Emit (Room ''AAAAAA'') [''a'', ''b''] (UserJoined ''b'' (Some ''Sam'') False),
       Emit (Socket ''b'') [''b''] (SessionJoined ''AAAAAA'' False ''Sam''),
       Emit (Socket ''b'') [''b''] (Ack True),
       Emit (RoomExcept (Some ''a'') ''b'') [''a''] (RequestState ''b'')])"
  by (simp add: join_session_def truthy_def socket_join_def
      host_of_def name_or_guest_def trim_def is_space_def io_to_emit_def members_def
      socket_emit_def socket_to_emit_def example_defs Let_def)

section \<open>Generated codes are fresh\<close>

lemma candidate_length: "length (candidate rnd) = 6"
  by (simp add: candidate_def)

lemma candidate_alphabet:
  assumes "\<forall>i. rnd i < 36"
  shows "set (candidate rnd) \<subseteq> set chars"
proof -
  have "length chars = 36" by (simp add: chars_def)
  with assms have "\<And>i. chars ! rnd i \<in> set chars" by (simp add: nth_mem)
  then show ?thesis by (auto simp: candidate_def)
qed



text \<open>A returned code is one of the candidates drawn, and it is free.\<close>

lemma generateCode_SomeD:
  assumes "generateCode depth reg rnd = Some code"
  shows "\<exists>k<depth. code = candidate ((advance ^^ k) rnd) \<and> reg code = None"
  using assms
proof (induction depth arbitrary: rnd)
  case 0
  then show ?case by simp
next
  case (Suc depth)
  show ?case
  proof (cases "truthy reg (candidate rnd)")
    case True
    with Suc.prems have "generateCode depth reg (advance rnd) = Some code" by simp
    from Suc.IH [OF this] obtain k where "k < depth"
      and "code = candidate ((advance ^^ k) (advance rnd))" and "reg code = None" by blast
    then have "Suc k < Suc depth \<and> code = candidate ((advance ^^ Suc k) rnd) \<and> reg code = None"
      by (simp add: funpow_swap1)
    then show ?thesis by blast
  next
    case False
    with Suc.prems have "code = candidate rnd" by simp
    with False have "0 < Suc depth \<and> code = candidate ((advance ^^ 0) rnd) \<and> reg code = None"
      by (simp add: truthy_def)
    then show ?thesis by blast
  qed
qed


lemma advance_bounded: "\<forall>i. rnd i < 36 \<Longrightarrow> \<forall>i. (advance ^^ k) rnd i < 36"
  by (induction k) (simp_all add: advance_def)

text \<open>When every code is taken, no sequence of draws makes the call return.\<close>

lemma generateCode_exhausted:
  assumes "\<forall>code. length code = 6 \<and> set code \<subseteq> set chars \<longrightarrow> reg code \<noteq> None"
    and "\<forall>i. rnd i < 36"
  shows "generateCode depth reg rnd = None"
proof (rule ccontr)
  assume "generateCode depth reg rnd \<noteq> None"
  then obtain code where "generateCode depth reg rnd = Some code" by blast
  from generateCode_SomeD [OF this] obtain k where
    k: "code = candidate ((advance ^^ k) rnd)" and f: "reg code = None" by blast
  from assms(2) have "\<forall>i. (advance ^^ k) rnd i < 36" by (rule advance_bounded)
  then have "set code \<subseteq> set chars" unfolding k by (rule candidate_alphabet)
  moreover have "length code = 6" unfolding k by (rule candidate_length)
  ultimately have "reg code \<noteq> None" using assms(1) by blast
  with f show False by contradiction
qed

text \<open>
  In every reachable state the keys of the registry are generated codes: they have six
  characters, so none is empty and none is an inherited property name.
\<close>

lemma sessions_join_session:
  "sessions (fst (join_session rv st sid code name callback)) = sessions st"
  by (cases rv)
     (auto simp: join_session_def Let_def sessions_socket_join split: option.splits)

lemma reachable_codes:
  assumes "reachable rv st" and "sessions st c \<noteq> None"
  shows "length c = 6"
  using assms
proof (induction arbitrary: c rule: reachable.induct)
  case start
  then show ?case by (simp add: initial_def)
next
  case (connect st sid)
  then show ?case by (simp add: connection_def)
next
  case (create st depth sid rnd st' es)
  from create.hyps(2) obtain code where g: "generateCode depth (sessions st) rnd = Some code"
    and s: "sessions st' = (sessions st)(code \<mapsto> \<lparr>hostId = sid\<rparr>)"
    by (auto simp: create_session_def split: option.splits)
  from generateCode_SomeD [OF g] have "length code = 6"
    by (auto simp: candidate_length)
  with create.IH create.prems s show ?case by (cases "c = code") simp_all
next
  case (transfer st sid code newHostId)
  show ?case
  proof (cases "sessions st c")
    case None
    with transfer.prems show ?thesis
      by (auto simp: transfer_host_def host_of_def split: option.splits if_splits)
  next
    case (Some s)
    then show ?thesis by (simp add: transfer.IH)
  qed
next
  case (join st sid code name callback)
  then show ?case by (simp add: sessions_join_session)
next
  case (leave st sid code)
  then show ?case
    by (auto simp: leave_session_def Let_def sessions_socket_leave
          split: option.splits if_splits)
next
  case (close st sid)
  then show ?case by (simp add: disconnect_closes socket_close_def)
qed

lemma reachable_hosted_twice: "reachable rv hosted_twice"
proof -
  have "reachable rv lobby"
    unfolding lobby_def by (intro reachable.connect reachable.start)
  then have "reachable rv hosted"
    using lobby_creates_hosted by (rule reachable.create)
  then show ?thesis
    using hosted_creates_twice by (rule reachable.create)
qed



section \<open>Joining\<close>

text \<open>
  A \<^verbatim>\<open>join-session\<close> whose code is missing, empty, or neither a key of the registry nor an
  inherited property name is refused: the callback, if there is one, gets \<open>false\<close>, the
  caller gets the error, nothing else is emitted and the state is unchanged.
\<close>

lemma join_session_unknown_code:
  assumes "code = None \<or> code = Some [] \<or> (\<exists>c. code = Some c \<and> \<not> truthy (sessions st) c)"
  shows "join_session rv st sid code name callback =
           (st, (if callback then [Emit (Socket sid) [sid] (Ack False)] else [])
                @ [Emit (Socket sid) [sid] (ErrorEvent ''Invalid session code'')])"
  using assms by (auto simp: join_session_def socket_emit_def)

text \<open>
  C3 fails for the codes that name a property every object inherits. No session
  \<open>constructor\<close> exists, yet \<^verbatim>\<open>sessions["constructor"]\<close> is truthy, so the guard lets the
  request through: the caller joins the room \<open>constructor\<close>, \<^verbatim>\<open>user-joined\<close> is broadcast
  to that room and the callback is invoked with \<open>true\<close>.
\<close>

theorem join_session_inherited_key:
  "sessions lobby ''constructor'' = None \<and>
   rooms (fst (join_session Part_000 lobby ''a'' (Some ''constructor'') (Some ''Sam'') True)) ''a''
     = [''a'', ''constructor''] \<and>
   snd (join_session Part_000 lobby ''a'' (Some ''constructor'') (Some ''Sam'') True) =
     [Emit (Room ''constructor'') [''a''] (UserJoined ''a'' (Some ''Sam'') False),
      Emit (Socket ''a'') [''a''] (SessionJoined ''constructor'' False ''Sam''),
      Emit (Socket ''a'') [''a''] (Ack True),
      Emit (RoomExcept None ''a'') [] (RequestState ''a'')]"
  by (simp add: join_session_def truthy_def object_prototype_keys_def socket_join_def
      host_of_def name_or_guest_def trim_def is_space_def io_to_emit_def members_def
      socket_emit_def socket_to_emit_def example_defs Let_def)

section \<open>Host authority\<close>




text \<open>
  C4, as the code has it. Let \<open>c\<close> be a session with host \<open>hostId s\<close> and let
  \<open>newHostId\<close> be another identifier. The host's \<^verbatim>\<open>transfer-host\<close> stores \<open>newHostId\<close>
  and broadcasts \<^verbatim>\<open>host-transferred\<close> to the room. Afterwards, if \<open>c\<close> is the session
  resolved for the old host, its \<^verbatim>\<open>playback-control\<close> yields the error to it alone; and
  if \<open>c\<close> is the session resolved for \<open>newHostId\<close>, which takes a socket of that id that
  is in the room, its \<^verbatim>\<open>playback-control\<close> is broadcast to the whole room.
\<close>

theorem transfer_then_control:
  assumes "sessions st c = Some s" and "c \<noteq> []" and "newHostId \<noteq> hostId s"
    and "st' = st\<lparr>sessions := (sessions st)(c \<mapsto> \<lparr>hostId = newHostId\<rparr>)\<rparr>"
  shows "transfer_host st (hostId s) (Some c) newHostId =
           (st', [Emit (Room c) (members st c) (HostTransferred newHostId)]) \<and>
         (resolve st' (hostId s) = Some c \<longrightarrow>
            playback_control st' (hostId s) data =
              (st', [Emit (Socket (hostId s)) [hostId s]
                       (ErrorEvent ''Only host can control playback'')])) \<and>
         (resolve st' newHostId = Some c \<longrightarrow>
            playback_control st' newHostId data =
              (st', [Emit (Room c) (members st' c) (PlaybackControl data)]))"
proof (intro conjI impI)
  have tr: "truthy (sessions st) c" using assms by (simp add: truthy_def)
  have ho: "host_of (sessions st) c = Some (hostId s)" using assms by (simp add: host_of_def)
  show "transfer_host st (hostId s) (Some c) newHostId =
           (st', [Emit (Room c) (members st c) (HostTransferred newHostId)])"
    using assms tr ho by (simp add: transfer_host_def io_to_emit_def)
  have ho': "host_of (sessions st') c = Some newHostId"
    using assms by (simp add: host_of_def)
  {
    assume "resolve st' (hostId s) = Some c"
    then show "playback_control st' (hostId s) data =
              (st', [Emit (Socket (hostId s)) [hostId s]
                       (ErrorEvent ''Only host can control playback'')])"
      using ho' assms(2,3) by (auto simp: playback_control_def socket_emit_def)
  }
  {
    assume "resolve st' newHostId = Some c"
    then show "playback_control st' newHostId data =
              (st', [Emit (Room c) (members st' c) (PlaybackControl data)])"
      using ho' assms(2) by (simp add: playback_control_def io_to_emit_def)
  }
qed

theorem transfer_then_control_witness:
  "sessions joined ''AAAAAA'' = Some \<lparr>hostId = ''a''\<rparr> \<and>
   transfer_host joined ''a'' (Some ''AAAAAA'') ''b'' =
     (handed_over, [Emit (Room ''AAAAAA'') [''a'', ''b''] (HostTransferred ''b'')]) \<and>
   resolve handed_over ''a'' = Some ''AAAAAA'' \<and>
   resolve handed_over ''b'' = Some ''AAAAAA'' \<and>
   playback_control handed_over ''a'' ''pause'' =
     (handed_over,
      [Emit (Socket ''a'') [''a''] (ErrorEvent ''Only host can control playback'')]) \<and>
   playback_control handed_over ''b'' ''pause'' =
     (handed_over, [Emit (Room ''AAAAAA'') [''a'', ''b''] (PlaybackControl ''pause'')])"
proof -
  have s: "sessions joined ''AAAAAA'' = Some \<lparr>hostId = ''a''\<rparr>"
    by (simp add: example_defs)
  have ne: "''AAAAAA'' \<noteq> []" by simp
  have d: "''b'' \<noteq> hostId \<lparr>hostId = ''a''\<rparr>" by simp
  have e: "handed_over =
      joined\<lparr>sessions := (sessions joined)(''AAAAAA'' \<mapsto> \<lparr>hostId = ''b''\<rparr>)\<rparr>"
    by (simp add: handed_over_def example_defs)
  have ra: "resolve handed_over ''a'' = Some ''AAAAAA''"
    by (simp add: resolve_def truthy_def handed_over_def example_defs)
  have rb: "resolve handed_over ''b'' = Some ''AAAAAA''"
    by (simp add: resolve_def truthy_def handed_over_def example_defs)
  have m: "members joined ''AAAAAA'' = [''a'', ''b'']"
    by (simp add: members_def example_defs)
  have m': "members handed_over ''AAAAAA'' = [''a'', ''b'']"
    by (simp add: members_def handed_over_def example_defs)
  from transfer_then_control [OF s ne d e, of "''pause''"] s ra rb m m'
  show ?thesis by simp
qed

text \<open>
  C4 as stated fails for a \<open>newHostId\<close> that is not in the room: \<^verbatim>\<open>transfer-host\<close> does
  not look at it. In \<open>hosted\<close> socket \<open>b\<close> has not joined; \<open>a\<close> transfers the host rights
  to \<open>b\<close>, the transfer succeeds, and the \<^verbatim>\<open>playback-control\<close> of \<open>b\<close> is refused.
\<close>

theorem transfer_to_outsider_counterexample:
  "snd (transfer_host hosted ''a'' (Some ''AAAAAA'') ''b'') =
     [Emit (Room ''AAAAAA'') [''a''] (HostTransferred ''b'')] \<and>
   host_of (sessions (fst (transfer_host hosted ''a'' (Some ''AAAAAA'') ''b''))) ''AAAAAA''
     = Some ''b'' \<and>
   snd (playback_control (fst (transfer_host hosted ''a'' (Some ''AAAAAA'') ''b''))
          ''b'' ''pause'') =
     [Emit (Socket ''b'') [''b''] (ErrorEvent ''Only host can control playback'')]"
  by (simp add: transfer_host_def playback_control_def resolve_def truthy_def host_of_def
      io_to_emit_def members_def socket_emit_def example_defs object_prototype_keys_def)

section \<open>Playback control and state pushes\<close>

text \<open>
  C7. A caller that is not the host of the session the handlers resolve for it, or for
  which they resolve none, gets nothing from \<^verbatim>\<open>sync-state\<close>: no emission at all and the
  state unchanged. The same caller's \<^verbatim>\<open>playback-control\<close> is answered by an error event
  to the caller.
\<close>

theorem sync_state_silent:
  assumes "\<forall>c. resolve st sid = Some c \<longrightarrow> host_of (sessions st) c \<noteq> Some sid"
  shows "sync_state st sid data = (st, []) \<and>
         playback_control st sid data' =
           (st, [Emit (Socket sid) [sid] (ErrorEvent ''Only host can control playback'')])"
  using assms
  by (auto simp: sync_state_def playback_control_def socket_emit_def split: option.splits)

theorem sync_state_silent_witness:
  "resolve joined ''b'' = Some ''AAAAAA'' \<and>
   host_of (sessions joined) ''AAAAAA'' = Some ''a'' \<and>
   sync_state joined ''b'' ''t=12'' = (joined, []) \<and>
   playback_control joined ''b'' ''pause'' =
     (joined, [Emit (Socket ''b'') [''b''] (ErrorEvent ''Only host can control playback'')])"
proof -
  have r: "resolve joined ''b'' = Some ''AAAAAA''"
    by (simp add: resolve_def truthy_def example_defs)
  have h: "\<forall>c. resolve joined ''b'' = Some c \<longrightarrow> host_of (sessions joined) c \<noteq> Some ''b''"
    by (simp add: r host_of_def example_defs)
  have a: "host_of (sessions joined) ''AAAAAA'' = Some ''a''"
    by (simp add: host_of_def example_defs)
  from sync_state_silent [OF h, of "''t=12''" "''pause''"] r a show ?thesis by blast
qed

text \<open>
  C10. A caller none of whose rooms (its own apart) is a session of the registry gets, from
  \<^verbatim>\<open>playback-control\<close>, exactly one emission: the error
  \<open>Only host can control playback\<close>, sent to the caller alone. Nothing is broadcast and
  the state, hence the registry, is unchanged. A member \<open>sid'\<close> of a session that is not
  its host gets the same event; the handler has no other error.
\<close>

theorem playback_control_outside_session:
  assumes "\<forall>r \<in> set (rooms st sid). r \<noteq> sid \<longrightarrow> sessions st r = None"
  shows "playback_control st sid data =
           (st, [Emit (Socket sid) [sid] (ErrorEvent ''Only host can control playback'')]) \<and>
         (resolve st sid' = Some c \<and> host_of (sessions st) c \<noteq> Some sid' \<longrightarrow>
            playback_control st sid' data =
              (st, [Emit (Socket sid') [sid']
                      (ErrorEvent ''Only host can control playback'')]))"
proof -
  have 1: "playback_control st sid data =
           (st, [Emit (Socket sid) [sid] (ErrorEvent ''Only host can control playback'')])"
  proof (cases "resolve st sid")
    case None
    then show ?thesis by (simp add: playback_control_def socket_emit_def)
  next
    case (Some c)
    then have "c \<in> set (rooms st sid)" and "c \<noteq> sid"
      using resolve_SomeD by blast+
    with assms have "sessions st c = None" by blast
    then have "host_of (sessions st) c = None" by (simp add: host_of_def)
    with Some show ?thesis by (simp add: playback_control_def socket_emit_def)
  qed
  have 2: "playback_control st sid' data =
              (st, [Emit (Socket sid') [sid'] (ErrorEvent ''Only host can control playback'')])"
    if "resolve st sid' = Some c \<and> host_of (sessions st) c \<noteq> Some sid'"
    using that by (auto simp: playback_control_def socket_emit_def)
  from 1 2 show ?thesis by blast
qed

theorem playback_control_outside_session_witness:
  "rooms lobby ''a'' = [''a''] \<and>
   playback_control lobby ''a'' ''pause'' =
     (lobby, [Emit (Socket ''a'') [''a''] (ErrorEvent ''Only host can control playback'')]) \<and>
   rooms joined ''c'' = [] \<and>
   resolve joined ''b'' = Some ''AAAAAA'' \<and>
   host_of (sessions joined) ''AAAAAA'' = Some ''a'' \<and>
   playback_control joined ''b'' ''seek'' =
     (joined, [Emit (Socket ''b'') [''b''] (ErrorEvent ''Only host can control playback'')])"
proof -
  have h: "\<forall>r \<in> set (rooms lobby ''a''). r \<noteq> ''a'' \<longrightarrow> sessions lobby r = None"
    by (simp add: example_defs)
  have r: "rooms lobby ''a'' = [''a'']"
    by (simp add: example_defs)
  have r': "rooms joined ''c'' = []"
    by (simp add: example_defs)
  then have h': "\<forall>r \<in> set (rooms joined ''c''). r \<noteq> ''c'' \<longrightarrow> sessions joined r = None"
    by simp
  have b: "resolve joined ''b'' = Some ''AAAAAA''"
    by (simp add: resolve_def truthy_def example_defs)
  have a: "host_of (sessions joined) ''AAAAAA'' = Some ''a''"
    by (simp add: host_of_def example_defs)
  from playback_control_outside_session [OF h, of "''pause''"]
  have 1: "playback_control lobby ''a'' ''pause'' =
     (lobby, [Emit (Socket ''a'') [''a''] (ErrorEvent ''Only host can control playback'')])"
    by blast
  from playback_control_outside_session
         [OF h', where sid' = "''b''" and c = "''AAAAAA''" and data = "''seek''"] a b
  have 2: "playback_control joined ''b'' ''seek'' =
     (joined, [Emit (Socket ''b'') [''b''] (ErrorEvent ''Only host can control playback'')])"
    by simp
  from r 1 r' b a 2 show ?thesis by blast
qed

section \<open>Chat\<close>

text \<open>
  C6, as the code has it. A \<^verbatim>\<open>chat-message\<close> of a caller for which the handlers resolve
  the session \<open>c\<close> is broadcast to the room \<open>c\<close>, with \<open>message\<close> and \<open>time\<close> as sent and
  a \<open>user\<close> field \<open>u\<close>. In \<^verbatim>\<open>part_000\<close>, \<open>u\<close> is the caller's recorded display name when
  there is one; otherwise the supplied \<open>user\<close> field with its leading and trailing white
  space removed, when that is not empty; otherwise \<open>Guest\<close>. \<^verbatim>\<open>index.ts\<close> records no
  names: \<open>u\<close> is the supplied \<open>user\<close> field as sent when it is not blank, else \<open>Guest\<close>.
\<close>

theorem chat_message_user_field:
  assumes "resolve st sid = Some c" and "c \<noteq> []"
  shows "\<exists>u. chat_message rv st sid user message time =
               (st, [Emit (Room c) (members st c) (ChatMessage u message time)]) \<and>
             (rv = Part_000 \<and> displayName st sid = Some n \<and> n \<noteq> [] \<longrightarrow> u = n) \<and>
             ((rv = Index_ts \<or> displayName st sid = None) \<and> user = Some x \<and> trim x \<noteq> []
                \<longrightarrow> u = (if rv = Part_000 then trim x else x)) \<and>
             ((rv = Index_ts \<or> displayName st sid = None) \<and>
              (user = None \<or> user = Some x \<and> trim x = []) \<longrightarrow> u = ''Guest'')"
  using assms
  by (cases rv)
     (auto simp: chat_message_def io_to_emit_def chat_user_def name_or_guest_def trim_def
        split: option.splits)

theorem chat_message_user_field_witness:
  "resolve joined ''b'' = Some ''AAAAAA'' \<and>
   displayName joined ''b'' = Some ''Sam'' \<and>
   chat_message Part_000 joined ''b'' (Some ''Bob'') ''hi'' ''12:00'' =
     (joined, [Emit (Room ''AAAAAA'') [''a'', ''b''] (ChatMessage ''Sam'' ''hi'' ''12:00'')]) \<and>
   resolve joined_index_ts ''b'' = Some ''AAAAAA'' \<and>
   chat_message Index_ts joined_index_ts ''b'' (Some '' Bob'') ''hi'' ''12:00'' =
     (joined_index_ts,
      [Emit (Room ''AAAAAA'') [''a'', ''b''] (ChatMessage '' Bob'' ''hi'' ''12:00'')]) \<and>
   chat_message Index_ts joined_index_ts ''b'' (Some ''  '') ''hi'' ''12:00'' =
     (joined_index_ts,
      [Emit (Room ''AAAAAA'') [''a'', ''b''] (ChatMessage ''Guest'' ''hi'' ''12:00'')])"
proof -
  have r: "resolve joined ''b'' = Some ''AAAAAA''"
    by (simp add: resolve_def truthy_def example_defs)
  have r': "resolve joined_index_ts ''b'' = Some ''AAAAAA''"
    by (simp add: resolve_def truthy_def example_defs)
  have ne: "''AAAAAA'' \<noteq> []" by simp
  have m: "members joined ''AAAAAA'' = [''a'', ''b'']"
    by (simp add: members_def example_defs)
  have m': "members joined_index_ts ''AAAAAA'' = [''a'', ''b'']"
    by (simp add: members_def example_defs)
  have n: "displayName joined ''b'' = Some ''Sam''"
    by (simp add: example_defs)
  have t: "trim '' Bob'' = ''Bob''" and t': "trim ''  '' = []"
    by (simp_all add: trim_def is_space_def)
  from chat_message_user_field
         [OF r ne, where rv = Part_000 and user = "Some ''Bob''" and message = "''hi''"
            and time = "''12:00''" and n = "''Sam''"] m n
  have 1: "chat_message Part_000 joined ''b'' (Some ''Bob'') ''hi'' ''12:00'' =
     (joined, [Emit (Room ''AAAAAA'') [''a'', ''b''] (ChatMessage ''Sam'' ''hi'' ''12:00'')])"
    by auto
  from chat_message_user_field
         [OF r' ne, where rv = Index_ts and user = "Some '' Bob''" and message = "''hi''"
            and time = "''12:00''" and x = "'' Bob''"] m' t
  have 2: "chat_message Index_ts joined_index_ts ''b'' (Some '' Bob'') ''hi'' ''12:00'' =
     (joined_index_ts,
      [Emit (Room ''AAAAAA'') [''a'', ''b''] (ChatMessage '' Bob'' ''hi'' ''12:00'')])"
    by auto
  from chat_message_user_field
         [OF r' ne, where rv = Index_ts and user = "Some ''  ''" and message = "''hi''"
            and time = "''12:00''" and x = "''  ''"] m' t'
  have 3: "chat_message Index_ts joined_index_ts ''b'' (Some ''  '') ''hi'' ''12:00'' =
     (joined_index_ts,
      [Emit (Room ''AAAAAA'') [''a'', ''b''] (ChatMessage ''Guest'' ''hi'' ''12:00'')])"
    by auto
  from r n 1 r' 2 3 show ?thesis by blast
qed

text \<open>
  C6 as stated fails in \<^verbatim>\<open>part_000\<close> for a supplied name with white space around it.
  The creator of a session has no recorded name; it sends \<open>user\<close> = \<open>" Bob"\<close> and the
  broadcast carries \<open>"Bob"\<close>, not the supplied field.
\<close>

theorem chat_message_trim_counterexample:
  "displayName hosted ''a'' = None \<and>
   snd (chat_message Part_000 hosted ''a'' (Some '' Bob'') ''hi'' ''12:00'') =
     [Emit (Room ''AAAAAA'') [''a''] (ChatMessage ''Bob'' ''hi'' ''12:00'')]"
  by (simp add: chat_message_def resolve_def truthy_def chat_user_def trim_def is_space_def
      io_to_emit_def members_def example_defs)

section \<open>Leaving and disconnecting\<close>

text \<open>
  C5, as the code has it. A \<^verbatim>\<open>leave-session\<close> with a code the guard accepts first
  broadcasts \<^verbatim>\<open>user-left\<close> to the room without the leaver. In \<^verbatim>\<open>part_000\<close> the event
  carries the leaver's id and its display name: the name recorded by its last
  \<^verbatim>\<open>join-session\<close> (the supplied name, or \<open>Guest\<close> for a blank one), or \<open>Guest\<close> when
  none is recorded. In \<^verbatim>\<open>index.ts\<close> it carries the leaver's id only.
\<close>

theorem user_left_payload:
  assumes "truthy (sessions st) c" and "c \<noteq> []"
  shows "(\<exists>rest. snd (leave_session rv st sid (Some c)) =
            Emit (Room c) (filter (\<lambda>m. m \<noteq> sid) (members st c))
              (UserLeft sid
                 (case rv of Index_ts \<Rightarrow> None
                  | Part_000 \<Rightarrow> Some (recorded_or_guest st sid))) # rest) \<and>
         recorded_or_guest (fst (join_session Part_000 st sid (Some c) name callback)) sid
           = name_or_guest name"
proof
  have u: "user_left rv st sid =
      UserLeft sid (case rv of Index_ts \<Rightarrow> None | Part_000 \<Rightarrow> Some (recorded_or_guest st sid))"
    by (cases rv) (simp_all add: user_left_def)
  show "\<exists>rest. snd (leave_session rv st sid (Some c)) =
            Emit (Room c) (filter (\<lambda>m. m \<noteq> sid) (members st c))
              (UserLeft sid
                 (case rv of Index_ts \<Rightarrow> None
                  | Part_000 \<Rightarrow> Some (recorded_or_guest st sid))) # rest"
    using assms
    by (simp add: leave_session_def Let_def io_to_emit_def members_socket_leave
          user_left_socket_leave u)
  show "recorded_or_guest (fst (join_session Part_000 st sid (Some c) name callback)) sid
           = name_or_guest name"
    using assms
    by (simp add: join_session_def Let_def recorded_or_guest_def name_or_guest_nonempty)
qed

theorem user_left_payload_witness:
  "truthy (sessions joined) ''AAAAAA'' \<and>
   recorded_or_guest joined ''b'' = ''Sam'' \<and>
   snd (leave_session Part_000 joined ''b'' (Some ''AAAAAA'')) =
     [Emit (Room ''AAAAAA'') [''a''] (UserLeft ''b'' (Some ''Sam''))]"
proof -
  have t: "truthy (sessions joined) ''AAAAAA''"
    by (simp add: truthy_def example_defs)
  have ne: "''AAAAAA'' \<noteq> []" by simp
  have m: "members joined ''AAAAAA'' = [''a'', ''b'']"
    by (simp add: members_def example_defs)
  have n: "recorded_or_guest joined ''b'' = ''Sam''"
    by (simp add: recorded_or_guest_def example_defs)
  have l: "length (snd (leave_session Part_000 joined ''b'' (Some ''AAAAAA''))) = 1"
    by (simp add: leave_session_def truthy_def host_of_def socket_leave_def Let_def
          example_defs)
  note p = user_left_payload [OF t ne, of Part_000 "''b''", unfolded m n, simplified]
  from p obtain rest where
    "snd (leave_session Part_000 joined ''b'' (Some ''AAAAAA'')) =
       Emit (Room ''AAAAAA'') [''a''] (UserLeft ''b'' (Some ''Sam'')) # rest"
    by blast
  with l have 1: "snd (leave_session Part_000 joined ''b'' (Some ''AAAAAA'')) =
       [Emit (Room ''AAAAAA'') [''a''] (UserLeft ''b'' (Some ''Sam''))]"
    by simp
  from t n 1 show ?thesis by blast
qed

text \<open>
  C5 as stated fails in \<^verbatim>\<open>index.ts\<close>: the guest that joined as \<open>Sam\<close> leaves and the
  \<^verbatim>\<open>user-left\<close> event has no name.
\<close>

theorem user_left_index_ts_counterexample:
  "snd (leave_session Index_ts joined_index_ts ''b'' (Some ''AAAAAA'')) =
     [Emit (Room ''AAAAAA'') [''a''] (UserLeft ''b'' None)]"
  by (simp add: leave_session_def truthy_def host_of_def socket_leave_def Let_def
        io_to_emit_def members_def user_left_def example_defs)

text \<open>
  The \<^verbatim>\<open>leave-session\<close> half of C1. Let \<open>c\<close> be a session of the registry (session codes
  are not empty). When its host sends \<^verbatim>\<open>leave-session\<close> with \<open>c\<close>, the session is
  deleted and \<^verbatim>\<open>user-left\<close>, then \<^verbatim>\<open>session-ended\<close>, go to the members of the room other
  than the leaver. A socket that is not the host of \<open>c\<close> never removes \<open>c\<close>, whatever code
  it leaves with and also when its connection closes.
\<close>

lemma leave_session_host_and_guest:
  assumes "sessions st c = Some s" and "c \<noteq> []"
  shows "(hostId s = sid \<longrightarrow>
            sessions (fst (leave_session rv st sid (Some c))) = (sessions st)(c := None) \<and>
            snd (leave_session rv st sid (Some c)) =
              [Emit (Room c) (filter (\<lambda>m. m \<noteq> sid) (members st c)) (user_left rv st sid),
               Emit (Room c) (filter (\<lambda>m. m \<noteq> sid) (members st c))
                 (SessionEnded ''Host left the session'')]) \<and>
         (hostId s \<noteq> sid \<longrightarrow>
            sessions (fst (leave_session rv st sid code)) c = Some s \<and>
            sessions (fst (disconnect rv st sid)) c = Some s)"
proof -
  have tr: "truthy (sessions st) c" using assms by (simp add: truthy_def)
  have ho: "host_of (sessions st) c = Some (hostId s)" using assms by (simp add: host_of_def)
  note sl = sessions_socket_leave
  have 1: "sessions (fst (leave_session rv st sid (Some c))) = (sessions st)(c := None) \<and>
            snd (leave_session rv st sid (Some c)) =
              [Emit (Room c) (filter (\<lambda>m. m \<noteq> sid) (members st c)) (user_left rv st sid),
               Emit (Room c) (filter (\<lambda>m. m \<noteq> sid) (members st c))
                 (SessionEnded ''Host left the session'')]"
    if "hostId s = sid"
    using assms tr ho that
    by (simp add: leave_session_def Let_def sl io_to_emit_def members_socket_leave
          user_left_socket_leave)
  have 3: "sessions (fst (leave_session rv st sid code)) c = Some s \<and>
            sessions (fst (disconnect rv st sid)) c = Some s"
    if "hostId s \<noteq> sid"
  proof
    show "sessions (fst (leave_session rv st sid code)) c = Some s"
      using assms that
      by (auto simp: leave_session_def Let_def sl host_of_def split: option.splits)
    show "sessions (fst (disconnect rv st sid)) c = Some s"
      using assms by (simp add: disconnect_closes socket_close_def)
  qed
  from 1 3 show ?thesis by blast
qed

text \<open>
  C1 fails when the host's connection closes. In \<open>joined\<close> socket \<open>a\<close> is the host of
  \<open>AAAAAA\<close> and \<open>b\<close> is in the room. By the time the \<^verbatim>\<open>disconnect\<close> listener of \<open>a\<close>
  runs, \<open>a\<close> has left all its rooms, the listener resolves no session, and so the session
  stays in the registry and nothing is emitted; the same in \<^verbatim>\<open>index.ts\<close>. The
  \<^verbatim>\<open>leave-session\<close> of \<open>a\<close> in the same state does end the session.
\<close>

theorem host_disconnect_keeps_session:
  "host_of (sessions joined) ''AAAAAA'' = Some ''a'' \<and>
   members joined ''AAAAAA'' = [''a'', ''b''] \<and>
   sessions (fst (disconnect Part_000 joined ''a'')) ''AAAAAA'' = Some \<lparr>hostId = ''a''\<rparr> \<and>
   snd (disconnect Part_000 joined ''a'') = [] \<and>
   sessions (fst (disconnect Index_ts joined_index_ts ''a'')) ''AAAAAA''
     = Some \<lparr>hostId = ''a''\<rparr> \<and>
   snd (disconnect Index_ts joined_index_ts ''a'') = [] \<and>
   sessions (fst (leave_session Part_000 joined ''a'' (Some ''AAAAAA''))) ''AAAAAA'' = None \<and>
   snd (leave_session Part_000 joined ''a'' (Some ''AAAAAA'')) =
     [Emit (Room ''AAAAAA'') [''b''] (UserLeft ''a'' (Some ''Guest'')),
      Emit (Room ''AAAAAA'') [''b''] (SessionEnded ''Host left the session'')]"
proof -
  have 1: "host_of (sessions joined) ''AAAAAA'' = Some ''a''"
    by (simp add: host_of_def example_defs)
  have 2: "members joined ''AAAAAA'' = [''a'', ''b'']"
    by (simp add: members_def example_defs)
  have 3: "sessions (fst (disconnect Part_000 joined ''a'')) ''AAAAAA''
             = Some \<lparr>hostId = ''a''\<rparr>"
    by (simp add: disconnect_def disconnect_listener_def resolve_def socket_close_def
          example_defs)
  have 4: "snd (disconnect Part_000 joined ''a'') = []"
    by (simp add: disconnect_def disconnect_listener_def resolve_def socket_close_def
          example_defs)
  have 5: "sessions (fst (disconnect Index_ts joined_index_ts ''a'')) ''AAAAAA''
             = Some \<lparr>hostId = ''a''\<rparr>"
    by (simp add: disconnect_def disconnect_listener_def resolve_def socket_close_def
          example_defs)
  have 6: "snd (disconnect Index_ts joined_index_ts ''a'') = []"
    by (simp add: disconnect_def disconnect_listener_def resolve_def socket_close_def
          example_defs)
  have 7: "sessions (fst (leave_session Part_000 joined ''a'' (Some ''AAAAAA''))) ''AAAAAA''
             = None"
    by (simp add: leave_session_def truthy_def host_of_def socket_leave_def Let_def
          example_defs)
  have 8: "snd (leave_session Part_000 joined ''a'' (Some ''AAAAAA'')) =
     [Emit (Room ''AAAAAA'') [''b''] (UserLeft ''a'' (Some ''Guest'')),
      Emit (Room ''AAAAAA'') [''b''] (SessionEnded ''Host left the session'')]"
    by (simp add: leave_session_def truthy_def host_of_def socket_leave_def Let_def
          io_to_emit_def members_def user_left_def recorded_or_guest_def example_defs)
  from 1 2 3 4 5 6 7 8 show ?thesis by blast
qed

section \<open>Single membership\<close>

lemma card_insert_le_one: "finite M \<Longrightarrow> card (insert c M) \<le> 1 \<longleftrightarrow> M \<subseteq> {c}"
proof
  assume f: "finite M" and "card (insert c M) \<le> 1"
  then have "card (insert c M) = 1"
    by (metis One_nat_def card_gt_0_iff finite_insert insert_not_empty le_antisym
        less_eq_Suc_le)
  then obtain x where "insert c M = {x}" by (auto simp: card_1_singleton_iff)
  then show "M \<subseteq> {c}" by auto
next
  assume "finite M" and "M \<subseteq> {c}"
  then have "insert c M = {c}" by auto
  then have "card (insert c M) = card {c}" by (rule arg_cong)
  then show "card (insert c M) \<le> 1" by simp
qed

lemma memberships_join:
  assumes "sessions st c \<noteq> None" and "c \<noteq> sid"
  shows "set (memberships (socket_join st sid c) sid) = insert c (set (memberships st sid))"
  using assms by (auto simp: memberships_def socket_join_def)

text \<open>
  C9, as the code has it. \<^verbatim>\<open>create-session\<close> and an accepted \<^verbatim>\<open>join-session\<close> put the
  caller into the session \<open>c\<close> and take it out of none: afterwards its sessions are the
  earlier ones and \<open>c\<close>. So the caller is in at most one session afterwards exactly when it
  was in no session other than \<open>c\<close> before. (A session code differs from the caller's
  socket id.)
\<close>

theorem create_join_add_membership:
  assumes "c \<noteq> sid"
  shows "(create_session depth st sid rnd = Some (st', es) \<and>
          es = [Emit (Socket sid) [sid] (SessionCreated c),
                Emit (Socket sid) [sid] (UserJoined sid None True)] \<longrightarrow>
            set (memberships st' sid) = insert c (set (memberships st sid)) \<and>
            (in_at_most_one st' sid \<longleftrightarrow> set (memberships st sid) \<subseteq> {c})) \<and>
         (sessions st c \<noteq> None \<and> c \<noteq> [] \<and>
          st' = fst (join_session rv st sid (Some c) name callback) \<longrightarrow>
            set (memberships st' sid) = insert c (set (memberships st sid)) \<and>
            (in_at_most_one st' sid \<longleftrightarrow> set (memberships st sid) \<subseteq> {c}))"
proof -
  have 1: "set (memberships st' sid) = insert c (set (memberships st sid)) \<and>
            (in_at_most_one st' sid \<longleftrightarrow> set (memberships st sid) \<subseteq> {c})"
    if a: "create_session depth st sid rnd = Some (st', es) \<and>
          es = [Emit (Socket sid) [sid] (SessionCreated c),
                Emit (Socket sid) [sid] (UserJoined sid None True)]"
  proof -
    from a have g: "generateCode depth (sessions st) rnd = Some c"
      by (auto simp: create_session_def socket_emit_def split: option.splits)
    with a have st':
      "st' = (socket_join st sid c)\<lparr>sessions := (sessions st)(c \<mapsto> \<lparr>hostId = sid\<rparr>)\<rparr>"
      by (simp add: create_session_def)
    from generateCode_SomeD [OF g] have n: "sessions st c = None" by blast
    have m: "set (memberships st' sid) = insert c (set (memberships st sid))"
      using assms n unfolding st' by (auto simp: memberships_def socket_join_def)
    have "in_at_most_one st' sid \<longleftrightarrow> set (memberships st sid) \<subseteq> {c}"
      unfolding in_at_most_one_def m by (rule card_insert_le_one) simp
    with m show ?thesis by blast
  qed
  have 2: "set (memberships st' sid) = insert c (set (memberships st sid)) \<and>
            (in_at_most_one st' sid \<longleftrightarrow> set (memberships st sid) \<subseteq> {c})"
    if a: "sessions st c \<noteq> None \<and> c \<noteq> [] \<and>
          st' = fst (join_session rv st sid (Some c) name callback)"
  proof -
    from a have t: "truthy (sessions st) c" by (simp add: truthy_def)
    have "memberships st' sid = memberships (socket_join st sid c) sid"
      using a t by (cases rv) (simp_all add: join_session_def Let_def memberships_def)
    with a assms have m: "set (memberships st' sid) = insert c (set (memberships st sid))"
      by (simp add: memberships_join)
    have "in_at_most_one st' sid \<longleftrightarrow> set (memberships st sid) \<subseteq> {c}"
      unfolding in_at_most_one_def m by (rule card_insert_le_one) simp
    with m show ?thesis by blast
  qed
  from 1 2 show ?thesis by blast
qed

theorem create_join_add_membership_witness:
  "memberships lobby ''a'' = [] \<and>
   create_session 10000 lobby ''a'' (\<lambda>_. 0) =
     Some (hosted, [Emit (Socket ''a'') [''a''] (SessionCreated ''AAAAAA''),
                    Emit (Socket ''a'') [''a''] (UserJoined ''a'' None True)]) \<and>
   set (memberships hosted ''a'') = {''AAAAAA''} \<and>
   in_at_most_one hosted ''a'' \<and>
   memberships hosted ''b'' = [] \<and>
   joined = fst (join_session Part_000 hosted ''b'' (Some ''AAAAAA'') (Some ''Sam'') True) \<and>
   set (memberships joined ''b'') = {''AAAAAA''} \<and>
   in_at_most_one joined ''b''"
proof -
  have d: "''AAAAAA'' \<noteq> ''a''" and d': "''AAAAAA'' \<noteq> ''b''" by simp_all
  have l: "memberships lobby ''a'' = []" by (simp add: memberships_def example_defs)
  have l': "memberships hosted ''b'' = []" by (simp add: memberships_def example_defs)
  have j: "joined =
      fst (join_session Part_000 hosted ''b'' (Some ''AAAAAA'') (Some ''Sam'') True)"
    by (simp add: hosted_join_joined)
  have s: "sessions hosted ''AAAAAA'' \<noteq> None" by (simp add: example_defs)
  from create_join_add_membership
         [OF d, where depth = 10000 and st = lobby and rnd = "\<lambda>_. 0" and st' = hosted]
       lobby_creates_hosted l
  have 1: "set (memberships hosted ''a'') = {''AAAAAA''} \<and> in_at_most_one hosted ''a''"
    by simp
  from create_join_add_membership
         [OF d', where st = hosted and st' = joined and rv = Part_000
            and name = "Some ''Sam''" and callback = True]
       j s l'
  have 2: "set (memberships joined ''b'') = {''AAAAAA''} \<and> in_at_most_one joined ''b''"
    by simp
  from l lobby_creates_hosted 1 l' j 2 show ?thesis by blast
qed

text \<open>
  C9 as stated fails: socket \<open>a\<close>, the host of \<open>AAAAAA\<close>, sends \<^verbatim>\<open>create-session\<close>
  again. It stays in \<open>AAAAAA\<close> and is now also in \<open>AAAAAB\<close>, in a reachable state.
\<close>

theorem second_session_counterexample:
  "reachable Part_000 hosted_twice \<and>
   memberships hosted ''a'' = [''AAAAAA''] \<and>
   create_session 10000 hosted ''a'' (\<lambda>i. if i = 5 then 1 else 0) =
     Some (hosted_twice, [Emit (Socket ''a'') [''a''] (SessionCreated ''AAAAAB''),
                          Emit (Socket ''a'') [''a''] (UserJoined ''a'' None True)]) \<and>
   memberships hosted_twice ''a'' = [''AAAAAA'', ''AAAAAB''] \<and>
   \<not> in_at_most_one hosted_twice ''a''"
proof -
  have 1: "memberships hosted ''a'' = [''AAAAAA'']"
    by (simp add: memberships_def example_defs)
  have 2: "memberships hosted_twice ''a'' = [''AAAAAA'', ''AAAAAB'']"
    by (simp add: memberships_def example_defs)
  have 3: "\<not> in_at_most_one hosted_twice ''a''"
    by (simp add: in_at_most_one_def 2)
  from 1 2 3 hosted_creates_twice reachable_hosted_twice show ?thesis by blast
qed

end
